theory Spec2Isabelle
  imports Complex_Main "HOL-Library.AList"
begin

section \<open>Conventions of the embedding\<close>

text \<open>
  The Python sources compute with \<^verbatim>\<open>Decimal\<close> (the simulated trader) and with
  \<^verbatim>\<open>float\<close> (price aggregation, risk scoring, exit analysis). Both are modelled
  by exact rationals: the properties below are about which branch runs and which
  quantity is credited, not about rounding. Strings are lists of 8-bit characters.
  Time stamps (\<^verbatim>\<open>datetime.utcnow()\<close>) and logging are left out.
\<close>

subsection \<open>\<^verbatim>\<open>str.upper\<close> on ASCII text\<close>

text \<open>
  The letters \<^verbatim>\<open>a\<close> to \<^verbatim>\<open>z\<close> are the codes 97 to 122; the capital of each is
  32 below, that is, the same byte with bit 5 cleared.
\<close>

fun upper_char :: "char \<Rightarrow> char" where
  "upper_char (Char b0 b1 b2 b3 b4 b5 b6 b7) =
     (let n = (of_char (Char b0 b1 b2 b3 b4 b5 b6 b7) :: nat)
      in if 97 \<le> n \<and> n \<le> 122 then Char b0 b1 b2 b3 b4 False b6 b7
         else Char b0 b1 b2 b3 b4 b5 b6 b7)"

definition upper :: "string \<Rightarrow> string" where
  "upper s = map upper_char s"


section \<open>The simulated trader (\<^verbatim>\<open>src/src/simulation/sim_trader.py\<close>)\<close>

text \<open>
  The dictionary \<^verbatim>\<open>take_profit_levels\<close> and each position's \<^verbatim>\<open>take_profits\<close>
  have the three keys \<^verbatim>\<open>first\<close>, \<^verbatim>\<open>second\<close>, \<^verbatim>\<open>moonbag\<close>.
\<close>

record levels =
  first :: rat
  second :: rat
  moonbag :: rat

text \<open>The dictionary stored in \<^verbatim>\<open>self.positions[token_address]\<close> by a BUY.\<close>

record position =
  amount :: rat
  entry_price :: rat
  current_price :: rat
  position_size :: rat
  stop_loss :: rat
  take_profits :: levels
  moonbag_reserved :: bool

text \<open>An entry of \<^verbatim>\<open>trade_history\<close> (without its time stamp).\<close>

record trade =
  trade_token :: string
  trade_action :: string
  trade_amount :: rat
  trade_entry_price :: rat
  trade_exit_price :: rat
  trade_profit :: rat

text \<open>
  The trader object. A position is a mutable dictionary that \<^verbatim>\<open>update_positions\<close>
  keeps a reference to while \<^verbatim>\<open>execute_trade\<close> may delete it from
  \<^verbatim>\<open>self.positions\<close>, so positions live in a store: \<open>positions\<close> maps a token to
  the reference of its dictionary, \<open>store\<close> maps a reference to the dictionary's
  contents, and \<open>next_ref\<close> is the next unused reference. Deleting a key leaves the
  object in the store, where only a holder of the reference can still reach it.
\<close>

record sim_trader =
  initial_balance :: rat
  current_balance :: rat
  positions :: "string \<rightharpoonup> nat"
  store :: "nat \<Rightarrow> position"
  next_ref :: nat
  trade_history :: "trade list"
  wins :: nat
  losses :: nat
  total_trades :: nat
  max_position_size :: rat
  stop_loss_pct :: rat
  take_profit_levels :: levels

text \<open>\<^verbatim>\<open>SimulatedTrader.__init__\<close>. The store's initial contents are never read.\<close>

definition blank_position :: position where
  "blank_position =
     \<lparr>amount = 0, entry_price = 0, current_price = 0, position_size = 0, stop_loss = 0,
      take_profits = \<lparr>first = 0, second = 0, moonbag = 0\<rparr>, moonbag_reserved = False\<rparr>"

definition init_trader :: "rat \<Rightarrow> sim_trader" where
  "init_trader balance0 =
     \<lparr>initial_balance = balance0,
      current_balance = balance0,
      positions = Map.empty,
      store = (\<lambda>_. blank_position),
      next_ref = 0,
      trade_history = [],
      wins = 0,
      losses = 0,
      total_trades = 0,
      max_position_size = balance0 * (10 / 100),
      stop_loss_pct = 8 / 100,
      take_profit_levels = \<lparr>first = 130 / 100, second = 180 / 100, moonbag = 5\<rparr>\<rparr>"

text \<open>
  The dictionary \<^verbatim>\<open>execute_trade\<close> returns: \<^verbatim>\<open>{'success': True, 'balance', 'action',
  'amount', 'price'}\<close>, or \<^verbatim>\<open>{'success': False, 'error': str(e)}\<close> from the
  \<^verbatim>\<open>except Exception\<close> handler that wraps the whole body.
\<close>

datatype trade_result =
    Success (res_balance: rat) (res_action: string) (res_amount: rat) (res_price: rat)
  | Failure (res_error: string)

definition success :: "trade_result \<Rightarrow> bool" where
  "success r = (case r of Success _ _ _ _ \<Rightarrow> True | Failure _ \<Rightarrow> False)"

text \<open>
  \<^verbatim>\<open>execute_trade\<close>. Each \<^verbatim>\<open>raise ValueError\<close> precedes every assignment of its
  branch, so the handler returns the failure with the object as it was. An action
  that is neither BUY nor SELL falls through both branches and reports success.
\<close>

definition execute_trade ::
  "sim_trader \<Rightarrow> string \<Rightarrow> string \<Rightarrow> rat \<Rightarrow> rat \<Rightarrow> sim_trader \<times> trade_result" where
  "execute_trade s token_address action amt price =
     (if upper action = ''BUY'' then
        (if current_balance s < amt * price then
           (s, Failure ''Insufficient balance for trade'')
         else
           let size = amt * price in
           if size > max_position_size s then
             (s, Failure ''Position size exceeds maximum allowed'')
           else
             let r = next_ref s;
                 s' = s\<lparr>current_balance := current_balance s - size,
                        positions := (positions s)(token_address \<mapsto> r),
                        store := (store s)(r :=
                          \<lparr>amount = amt,
                           entry_price = price,
                           current_price = price,
                           position_size = size,
                           stop_loss = price * (1 - stop_loss_pct s),
                           take_profits =
                             \<lparr>first = price * first (take_profit_levels s),
                              second = price * second (take_profit_levels s),
                              moonbag = price * moonbag (take_profit_levels s)\<rparr>,
                           moonbag_reserved = False\<rparr>),
                        next_ref := Suc r\<rparr>
             in (s', Success (current_balance s') action amt price))
      else if upper action = ''SELL'' then
        (case positions s token_address of
           None \<Rightarrow> (s, Failure ''No open position for this token'')
         | Some r \<Rightarrow>
             let pos = store s r;
                 profit = (price - entry_price pos) * amount pos;
                 won = (price > entry_price pos);
                 s' = s\<lparr>current_balance := current_balance s + amount pos * price,
                        wins := (if won then wins s + 1 else wins s),
                        losses := (if won then losses s else losses s + 1),
                        total_trades := total_trades s + 1,
                        trade_history := trade_history s @
                          [\<lparr>trade_token = token_address,
                            trade_action = action,
                            trade_amount = amount pos,
                            trade_entry_price = entry_price pos,
                            trade_exit_price = price,
                            trade_profit = profit\<rparr>],
                        positions := (positions s)(token_address := None)\<rparr>
             in (s', Success (current_balance s') action amt price))
      else (s, Success (current_balance s) action amt price))"

text \<open>
  \<^verbatim>\<open>update_positions\<close> discards what \<^verbatim>\<open>execute_trade\<close> returns. The model keeps,
  beside the new state, the list of the \<^verbatim>\<open>execute_trade\<close> calls the loop issued,
  each tagged with the check that issued it (the source's comments \<^verbatim>\<open>Check stop loss\<close>
  and the three targets under \<^verbatim>\<open>Check take profit levels\<close>) and paired with the
  dictionary the call returned.
\<close>

datatype exit_check = StopLoss | TakeProfitFirst | TakeProfitSecond | TakeProfitMoonbag

text \<open>
  Assignments through the local reference \<^verbatim>\<open>position\<close>: they change the object in
  the store, whether or not \<^verbatim>\<open>self.positions\<close> still holds it.
\<close>

definition assign :: "sim_trader \<Rightarrow> nat \<Rightarrow> (position \<Rightarrow> position) \<Rightarrow> sim_trader" where
  "assign s r f = s\<lparr>store := (store s)(r := f (store s r))\<rparr>"

text \<open>The three targets of the loop body, in the order of the source.\<close>

definition first_target ::
  "sim_trader \<Rightarrow> string \<Rightarrow> nat \<Rightarrow> rat \<Rightarrow> sim_trader \<times> (exit_check \<times> trade_result) list" where
  "first_target s token r price =
     (if price \<ge> first (take_profits (store s r)) then
        let sell_amount = amount (store s r) * (40 / 100);
            (s', res) = execute_trade s token ''SELL'' sell_amount price
        in (assign s' r (\<lambda>p. p\<lparr>amount := amount p - sell_amount\<rparr>),
            [(TakeProfitFirst, res)])
      else (s, []))"

definition second_target ::
  "sim_trader \<Rightarrow> string \<Rightarrow> nat \<Rightarrow> rat \<Rightarrow> sim_trader \<times> (exit_check \<times> trade_result) list" where
  "second_target s token r price =
     (if price \<ge> second (take_profits (store s r)) then
        let sell_amount = amount (store s r) * (40 / 100);
            (s', res) = execute_trade s token ''SELL'' sell_amount price
        in (assign s' r (\<lambda>p. p\<lparr>amount := amount p - sell_amount, moonbag_reserved := True\<rparr>),
            [(TakeProfitSecond, res)])
      else (s, []))"

definition moonbag_target ::
  "sim_trader \<Rightarrow> string \<Rightarrow> nat \<Rightarrow> rat \<Rightarrow> sim_trader \<times> (exit_check \<times> trade_result) list" where
  "moonbag_target s token r price =
     (if price \<ge> moonbag (take_profits (store s r)) then
        let (s', res) = execute_trade s token ''SELL'' (amount (store s r)) price
        in (s', [(TakeProfitMoonbag, res)])
      else (s, []))"

text \<open>The body of the loop of \<^verbatim>\<open>update_positions\<close> for one \<^verbatim>\<open>(token, data)\<close> item.\<close>

definition update_position ::
  "sim_trader \<Rightarrow> string \<Rightarrow> rat \<Rightarrow> sim_trader \<times> (exit_check \<times> trade_result) list" where
  "update_position s token price =
     (case positions s token of
        None \<Rightarrow> (s, [])
      | Some r \<Rightarrow>
          let s0 = assign s r (\<lambda>p. p\<lparr>current_price := price\<rparr>) in
          if price \<le> stop_loss (store s0 r) then
            let (s', res) = execute_trade s0 token ''SELL'' (amount (store s0 r)) price
            in (s', [(StopLoss, res)])
          else if \<not> moonbag_reserved (store s0 r) then
            let (s1, calls1) = first_target s0 token r price;
                (s2, calls2) = second_target s1 token r price;
                (s3, calls3) = moonbag_target s2 token r price
            in (s3, calls1 @ calls2 @ calls3)
          else (s0, []))"

text \<open>
  \<^verbatim>\<open>update_positions\<close>: the items of \<^verbatim>\<open>market_data\<close> in the dictionary's order, each
  a token with its \<^verbatim>\<open>data['price']\<close>.
\<close>

fun update_positions ::
  "sim_trader \<Rightarrow> (string \<times> rat) list \<Rightarrow>
     sim_trader \<times> (string \<times> exit_check \<times> trade_result) list" where
  "update_positions s [] = (s, [])"
| "update_positions s ((token, price) # market_data) =
     (let (s', calls) = update_position s token price;
          (s'', rest) = update_positions s' market_data
      in (s'', map (\<lambda>c. (token, c)) calls @ rest))"


section \<open>Price aggregation and detection
  (\<^verbatim>\<open>src/backup_working_version/src/dex_integrations.py\<close>)\<close>

datatype py_exception = ZeroDivisionError | FetchError

text \<open>
  A venue adapter (\<^verbatim>\<open>DEXInterface\<close>) is given by what its two network calls answer
  for a base and a quote token during one round: a number, or an exception.
\<close>

record dex =
  get_price :: "string \<Rightarrow> string \<Rightarrow> py_exception + rat"
  get_liquidity :: "string \<Rightarrow> string \<Rightarrow> py_exception + rat"

text \<open>
  \<^verbatim>\<open>DEXManager\<close>: the dictionary \<^verbatim>\<open>self.dexes\<close> in its insertion order and the list
  \<^verbatim>\<open>self.trading_pairs\<close>. Dictionaries whose order matters are association lists;
  \<open>AList.update\<close> is Python's item assignment (a new key goes to the end, an old key
  keeps its place).
\<close>

record dex_manager =
  dexes :: "(string \<times> dex) list"
  trading_pairs :: "(string \<times> string) list"

definition pair_key :: "string \<Rightarrow> string \<Rightarrow> string" where
  "pair_key base quote = base @ ''-'' @ quote"

text \<open>
  The inner loops of \<^verbatim>\<open>get_all_prices\<close> for one pair: every venue is asked, an
  exception is caught and logged, and a price is stored only if \<^verbatim>\<open>price > 0\<close>.
\<close>

definition venue_prices :: "(string \<times> dex) list \<Rightarrow> string \<Rightarrow> string \<Rightarrow> (string \<times> rat) list" where
  "venue_prices ds base quote =
     fold (\<lambda>(dex_name, d) entries.
             case get_price d base quote of
               Inl e \<Rightarrow> entries
             | Inr price \<Rightarrow>
                 if price > 0 then AList.update dex_name price entries else entries)
          ds []"

definition get_all_prices :: "dex_manager \<Rightarrow> (string \<times> (string \<times> rat) list) list" where
  "get_all_prices m =
     fold (\<lambda>(base, quote) prices.
             AList.update (pair_key base quote) (venue_prices (dexes m) base quote) prices)
          (trading_pairs m) []"

text \<open>
  Python's \<^verbatim>\<open>min(items, key=...)\<close> and \<^verbatim>\<open>max(items, key=...)\<close> on a non-empty
  sequence: the best item so far is replaced only by a strictly better one.
\<close>

fun min_from :: "('a \<Rightarrow> rat) \<Rightarrow> 'a \<Rightarrow> 'a list \<Rightarrow> 'a" where
  "min_from key best [] = best"
| "min_from key best (x # xs) = min_from key (if key x < key best then x else best) xs"

fun max_from :: "('a \<Rightarrow> rat) \<Rightarrow> 'a \<Rightarrow> 'a list \<Rightarrow> 'a" where
  "max_from key best [] = best"
| "max_from key best (x # xs) = max_from key (if key x > key best then x else best) xs"

record opportunity =
  pair :: string
  buy_dex :: string
  sell_dex :: string
  buy_price :: rat
  sell_price :: rat
  profit_percentage :: rat

text \<open>
  The body of the loop of \<^verbatim>\<open>get_arbitrage_opportunities\<close> for one pair. A quote map
  with fewer than two entries is skipped. The division raises
  \<^verbatim>\<open>ZeroDivisionError\<close> on a zero minimum, and nothing in the method catches it.
\<close>

definition pair_opportunity ::
  "rat \<Rightarrow> string \<Rightarrow> (string \<times> rat) list \<Rightarrow> py_exception + opportunity option" where
  "pair_opportunity min_profit_percentage pair_name dex_prices =
     (case dex_prices of
        x # y # rest \<Rightarrow>
          let min_price_dex = min_from snd x (y # rest);
              max_price_dex = max_from snd x (y # rest)
          in if snd min_price_dex = 0 then Inl ZeroDivisionError
             else
               let pct = (snd max_price_dex - snd min_price_dex) / snd min_price_dex * 100
               in if pct \<ge> min_profit_percentage then
                    Inr (Some \<lparr>pair = pair_name,
                               buy_dex = fst min_price_dex,
                               sell_dex = fst max_price_dex,
                               buy_price = snd min_price_dex,
                               sell_price = snd max_price_dex,
                               profit_percentage = pct\<rparr>)
                  else Inr None
      | _ \<Rightarrow> Inr None)"

fun scan_pairs ::
  "rat \<Rightarrow> (string \<times> (string \<times> rat) list) list \<Rightarrow> py_exception + opportunity list" where
  "scan_pairs min_profit_percentage [] = Inr []"
| "scan_pairs min_profit_percentage ((pair_name, dex_prices) # rest) =
     (case pair_opportunity min_profit_percentage pair_name dex_prices of
        Inl e \<Rightarrow> Inl e
      | Inr found \<Rightarrow>
          (case scan_pairs min_profit_percentage rest of
             Inl e \<Rightarrow> Inl e
           | Inr opportunities \<Rightarrow>
               Inr (case found of None \<Rightarrow> opportunities | Some opp \<Rightarrow> opp # opportunities)))"

definition get_arbitrage_opportunities ::
  "dex_manager \<Rightarrow> rat \<Rightarrow> py_exception + opportunity list" where
  "get_arbitrage_opportunities m min_profit_percentage =
     scan_pairs min_profit_percentage (get_all_prices m)"

text \<open>\<^verbatim>\<open>get_liquidity_info\<close>, which no other method of the class calls.\<close>

definition get_liquidity_info :: "dex_manager \<Rightarrow> string \<times> string \<Rightarrow> (string \<times> rat) list" where
  "get_liquidity_info m p =
     fold (\<lambda>(dex_name, d) liquidity.
             case get_liquidity d (fst p) (snd p) of
               Inl e \<Rightarrow> liquidity
             | Inr liq \<Rightarrow> if liq > 0 then AList.update dex_name liq liquidity else liquidity)
          (dexes m) []"


section \<open>The weighted risk score (\<^verbatim>\<open>src/src/risk_calculator.py\<close>)\<close>

record risk_weights =
  volatility :: rat
  liquidity :: rat
  spread :: rat
  volume :: rat
  smart_contract :: rat

record risk_components =
  volatility_risk :: rat
  liquidity_risk :: rat
  spread_risk :: rat
  volume_risk :: rat
  smart_contract_risk :: rat

definition default_weights :: risk_weights where
  "default_weights =
     \<lparr>volatility = 30 / 100, liquidity = 25 / 100, spread = 15 / 100,
      volume = 15 / 100, smart_contract = 15 / 100\<rparr>"

text \<open>
  The sum \<^verbatim>\<open>total_risk\<close> of \<^verbatim>\<open>calculate_risk_score\<close>, from \<^verbatim>\<open>self.weights\<close> and the
  five component scores the method has gathered.
\<close>

definition total_risk :: "risk_weights \<Rightarrow> risk_components \<Rightarrow> rat" where
  "total_risk w c =
     volatility_risk c * volatility w +
     liquidity_risk c * liquidity w +
     spread_risk c * spread w +
     volume_risk c * volume w +
     smart_contract_risk c * smart_contract w"


section \<open>Exit analysis
  (\<^verbatim>\<open>src/backups/successful_config_20231203/src/solana_trader.py\<close>)\<close>

text \<open>The entries of \<^verbatim>\<open>trading_config['exit']\<close>.\<close>

record exit_config =
  cfg_take_profit :: rat
  cfg_stop_loss :: rat
  cfg_trailing_stop :: rat
  cfg_max_hold_time :: rat

definition default_exit_config :: exit_config where
  "default_exit_config =
     \<lparr>cfg_take_profit = 20 / 100, cfg_stop_loss = 10 / 100,
      cfg_trailing_stop = 5 / 100, cfg_max_hold_time = 3600\<rparr>"

text \<open>The two entries of \<^verbatim>\<open>_get_position_data\<close>'s answer that the analysis reads.\<close>

record position_data =
  hold_time :: rat
  trailing_high :: rat

text \<open>
  The formatted strings appended to \<^verbatim>\<open>reasons\<close>, each with the number it prints
  (a percentage, or hours).
\<close>

datatype exit_reason =
    TakeProfitHit rat
  | StopLossHit rat
  | TrailingStopHit rat
  | MaxHoldTimeReached rat
  | ExitError py_exception

record exit_analysis =
  should_exit :: bool
  reasons :: "exit_reason list"
  seen_price :: rat
  price_change :: rat

text \<open>
  \<^verbatim>\<open>analyze_exit_opportunity\<close>, given what \<^verbatim>\<open>_get_current_price\<close> and
  \<^verbatim>\<open>_get_position_data\<close> answered. Both divisions raise on a zero divisor; the
  handler then answers \<^verbatim>\<open>should_exit: True\<close> with the error as the only reason.
\<close>

definition exit_on_error :: "py_exception \<Rightarrow> exit_analysis" where
  "exit_on_error e =
     \<lparr>should_exit = True, reasons = [ExitError e], seen_price = 0, price_change = 0\<rparr>"

definition analyze_exit_opportunity ::
  "exit_config \<Rightarrow> rat \<Rightarrow> position_data \<Rightarrow> rat \<Rightarrow> exit_analysis" where
  "analyze_exit_opportunity cfg price pdata entry =
     (if entry = 0 then exit_on_error ZeroDivisionError
      else
        let change = (price - entry) / entry;
            take_profit = (change \<ge> cfg_take_profit cfg);
            stop_loss_hit = (change \<le> - cfg_stop_loss cfg)
        in if trailing_high pdata = 0 then exit_on_error ZeroDivisionError
           else
             let retrace = (trailing_high pdata - price) / trailing_high pdata;
                 trailing_stop_hit = (retrace \<ge> cfg_trailing_stop cfg);
                 expired = (hold_time pdata \<ge> cfg_max_hold_time cfg)
             in \<lparr>should_exit = (take_profit \<or> stop_loss_hit \<or> trailing_stop_hit \<or> expired),
                 reasons =
                   (if take_profit then [TakeProfitHit (change * 100)] else []) @
                   (if stop_loss_hit then [StopLossHit (change * 100)] else []) @
                   (if trailing_stop_hit then [TrailingStopHit (retrace * 100)] else []) @
                   (if expired then [MaxHoldTimeReached (hold_time pdata / 3600)] else []),
                 seen_price = price,
                 price_change = change\<rparr>)"


section \<open>A second detector (\<^verbatim>\<open>src/src/arbitrage_bot.py\<close>)\<close>

text \<open>
  \<^verbatim>\<open>ArbitrageBot.find_arbitrage_opportunity\<close> takes the same minimum and maximum over
  a per-venue price map, with an absolute threshold and no division. A call of
  \<^verbatim>\<open>get_token_price\<close> that raises is skipped, and there is no filter on the price.
  The source draws each price at random; the model is given the answer of the call made
  for each pair and venue of one scan. The answer \<^verbatim>\<open>(False, {})\<close> is \<open>None\<close>.
\<close>

record arbitrage_bot =
  bot_dexes :: "string list"
  bot_trading_pairs :: "(string \<times> string) list"
  min_profit_usd :: rat
  get_token_price :: "string \<times> string \<Rightarrow> string \<Rightarrow> py_exception + rat"

record bot_opportunity =
  base_token :: string
  quote_token :: string
  bot_buy_dex :: string
  bot_sell_dex :: string
  bot_buy_price :: rat
  bot_sell_price :: rat
  potential_profit_usd :: rat

definition bot_prices :: "arbitrage_bot \<Rightarrow> string \<times> string \<Rightarrow> (string \<times> rat) list" where
  "bot_prices b p =
     fold (\<lambda>dex_name prices.
             case get_token_price b p dex_name of
               Inl e \<Rightarrow> prices
             | Inr price \<Rightarrow> AList.update dex_name price prices)
          (bot_dexes b) []"

fun find_in_pairs :: "arbitrage_bot \<Rightarrow> (string \<times> string) list \<Rightarrow> bot_opportunity option" where
  "find_in_pairs b [] = None"
| "find_in_pairs b ((base, quote) # rest) =
     (case bot_prices b (base, quote) of
        x # y # others \<Rightarrow>
          let buy = min_from snd x (y # others);
              sell = max_from snd x (y # others);
              price_diff = snd sell - snd buy;
              profit_usd = price_diff * 1
          in if profit_usd \<ge> min_profit_usd b then
               Some \<lparr>base_token = base, quote_token = quote,
                     bot_buy_dex = fst buy, bot_sell_dex = fst sell,
                     bot_buy_price = snd buy, bot_sell_price = snd sell,
                     potential_profit_usd = profit_usd\<rparr>
             else find_in_pairs b rest
      | _ \<Rightarrow> find_in_pairs b rest)"

definition find_arbitrage_opportunity :: "arbitrage_bot \<Rightarrow> bot_opportunity option" where
  "find_arbitrage_opportunity b = find_in_pairs b (bot_trading_pairs b)"


section \<open>Example inputs\<close>

text \<open>
  Concrete objects on which the theorems below are evaluated: a trader after one BUY of
  10 units at price 1 and one after a BUY at price 0, venues that answer a fixed price
  and liquidity or raise, managers built from them (one with the pairs configured in
  \<^verbatim>\<open>DEXManager.__init__\<close>), weights and component scores, and the position data that
  \<^verbatim>\<open>_get_position_data\<close> returns.
\<close>

definition bought_trader :: sim_trader where
  "bought_trader = fst (execute_trade (init_trader 500) ''TOK'' ''BUY'' 10 1)"

definition zero_entry_trader :: sim_trader where
  "zero_entry_trader = fst (execute_trade (init_trader 500) ''TOK'' ''BUY'' 10 0)"

definition quoting :: "rat \<Rightarrow> rat \<Rightarrow> dex" where
  "quoting p l = \<lparr>get_price = (\<lambda>_ _. Inr p), get_liquidity = (\<lambda>_ _. Inr l)\<rparr>"

definition failing :: dex where
  "failing = \<lparr>get_price = (\<lambda>_ _. Inl FetchError), get_liquidity = (\<lambda>_ _. Inl FetchError)\<rparr>"

definition scenario_a :: dex_manager where
  "scenario_a =
     \<lparr>dexes = [(''VenueX'', quoting 1 0), (''VenueY'', quoting (106 / 100) 0)],
      trading_pairs = [(''SOL'', ''USDC'')]\<rparr>"

definition tied_manager :: dex_manager where
  "tied_manager =
     \<lparr>dexes = [(''Raydium'', quoting 1 100), (''Orca'', quoting 1 1000),
               (''Saros'', quoting (106 / 100) 500), (''Marinade'', quoting (106 / 100) 500)],
      trading_pairs = [(''mSOL'', ''USDC'')]\<rparr>"

definition configured_pairs :: "(string \<times> string) list" where
  "configured_pairs =
     [(''SOL'', ''USDC''), (''SOL'', ''USDT''), (''BTC'', ''USDC''), (''ETH'', ''USDC''),
      (''RAY'', ''USDC''), (''ORCA'', ''USDC''), (''SRM'', ''USDC''), (''mSOL'', ''SOL''),
      (''mSOL'', ''USDC''), (''BONK'', ''USDC''), (''SAMO'', ''USDC''), (''COPE'', ''USDC''),
      (''FIDA'', ''USDC''), (''MNGO'', ''USDC''), (''SLND'', ''USDC'')]"

definition partial_manager :: dex_manager where
  "partial_manager =
     \<lparr>dexes = [(''Raydium'', quoting 1 100), (''Orca'', failing), (''Jupiter'', quoting 0 100),
               (''Saros'', quoting (106 / 100) 100), (''Marinade'', quoting (- 1) 100)],
      trading_pairs = configured_pairs\<rparr>"

definition skewed_weights :: risk_weights where
  "skewed_weights = \<lparr>volatility = 2, liquidity = - 1, spread = 0, volume = 0, smart_contract = 0\<rparr>"

definition volatile_only :: risk_components where
  "volatile_only = \<lparr>volatility_risk = 100, liquidity_risk = 0, spread_risk = 0, volume_risk = 0, smart_contract_risk = 0\<rparr>"

definition scenario_d :: risk_components where
  "scenario_d = \<lparr>volatility_risk = 90, liquidity_risk = 90, spread_risk = 80, volume_risk = 90, smart_contract_risk = 90\<rparr>"

definition returned_position_data :: position_data where
  "returned_position_data = \<lparr>hold_time = 1800, trailing_high = 12 / 10\<rparr>"


section \<open>Evaluation rules for the examples\<close>

lemmas trader_eval = execute_trade_def upper_def init_trader_def Let_def update_position_def
  assign_def first_target_def second_target_def moonbag_target_def

lemmas dex_eval = get_arbitrage_opportunities_def get_all_prices_def venue_prices_def
  pair_opportunity_def get_liquidity_info_def pair_key_def quoting_def failing_def Let_def


section \<open>Entry failures\<close>

text \<open>
  Claim C9. A BUY whose cost exceeds the current balance, or whose position size
  exceeds the configured maximum, returns the failure dictionary (no exception reaches
  the caller) and leaves the whole trader object, in particular the balance and the
  open positions, as it was.
\<close>

theorem failed_buy_changes_nothing:
  assumes "upper action = ''BUY''"
    and "current_balance s < amt * price \<or> amt * price > max_position_size s"
  shows "\<exists>msg. execute_trade s token_address action amt price = (s, Failure msg)"
  using assms by (auto simp: execute_trade_def Let_def)

theorem failed_buy_changes_nothing_witness:
  "upper ''buy'' = ''BUY'' \<and> current_balance (init_trader 500) < 100 * 10 \<and>
   (\<exists>msg. execute_trade (init_trader 500) ''TOK'' ''buy'' 100 10 =
      (init_trader 500, Failure msg))"
  using failed_buy_changes_nothing [of "''buy''" "init_trader 500" 100 10 "''TOK''"]
  by (simp add: upper_def init_trader_def)


section \<open>A sell is always a full exit\<close>

lemma execute_sell:
  assumes "upper action = ''SELL''"
  shows "execute_trade s token_address action amt price =
     (case positions s token_address of
        None \<Rightarrow> (s, Failure ''No open position for this token'')
      | Some r \<Rightarrow>
          (s\<lparr>current_balance := current_balance s + amount (store s r) * price,
             wins := (if price > entry_price (store s r) then wins s + 1 else wins s),
             losses := (if price > entry_price (store s r) then losses s else losses s + 1),
             total_trades := total_trades s + 1,
             trade_history := trade_history s @
               [\<lparr>trade_token = token_address, trade_action = action,
                 trade_amount = amount (store s r),
                 trade_entry_price = entry_price (store s r),
                 trade_exit_price = price,
                 trade_profit = (price - entry_price (store s r)) * amount (store s r)\<rparr>],
             positions := (positions s)(token_address := None)\<rparr>,
           Success (current_balance s + amount (store s r) * price) action amt price))"
  using assms by (simp add: execute_trade_def Let_def split: option.split)

lemma upper_SELL: "upper ''SELL'' = ''SELL''"
  by (simp add: upper_def)

text \<open>
  Claim C10. Whatever amount a SELL is called with, if it succeeds then the token had
  a position, the balance grows by that position's whole amount times the sell price,
  the trade history records the whole amount, and the token is deleted from the open
  positions: asking to sell a fraction is a full exit.
\<close>

theorem successful_sell_is_full_exit:
  assumes "upper action = ''SELL''"
    and "execute_trade s token_address action amt price = (s', res)"
    and "success res"
  shows "\<exists>r. positions s token_address = Some r \<and>
           current_balance s' = current_balance s + amount (store s r) * price \<and>
           trade_amount (last (trade_history s')) = amount (store s r) \<and>
           positions s' = (positions s)(token_address := None) \<and>
           res = Success (current_balance s') action amt price"
proof (cases "positions s token_address")
  case None
  with assms show ?thesis
    by (auto simp: execute_sell success_def)
next
  case (Some r)
  with assms(1,2) show ?thesis
    by (auto simp: execute_sell)
qed

theorem successful_sell_is_full_exit_witness:
  "upper ''sell'' = ''SELL'' \<and>
   success (snd (execute_trade bought_trader ''TOK'' ''sell'' 4 2)) \<and>
   positions bought_trader ''TOK'' = Some 0 \<and>
   current_balance (fst (execute_trade bought_trader ''TOK'' ''sell'' 4 2)) = 490 + 10 * 2 \<and>
   positions (fst (execute_trade bought_trader ''TOK'' ''sell'' 4 2)) ''TOK'' = None \<and>
   snd (execute_trade bought_trader ''TOK'' ''sell'' 4 2) = Success 510 ''sell'' 4 2"
  using successful_sell_is_full_exit [of "''sell''" bought_trader "''TOK''" 4 2
      "fst (execute_trade bought_trader ''TOK'' ''sell'' 4 2)"
      "snd (execute_trade bought_trader ''TOK'' ''sell'' 4 2)"]
  by (simp add: bought_trader_def trader_eval success_def)


section \<open>Stop loss before take profit\<close>

text \<open>
  Claim C4. When the price of an update is at or below the position's stop loss and
  also at or above one of its take-profit targets, \<^verbatim>\<open>update_positions\<close> issues
  exactly one \<^verbatim>\<open>execute_trade\<close> call, the one of the stop-loss check: it succeeds,
  credits the whole amount and deletes the position. No take-profit check runs, since
  the stop-loss branch ends with \<^verbatim>\<open>continue\<close>.
\<close>

theorem stop_loss_precedes_take_profit:
  assumes "positions s token = Some r"
    and "price \<le> stop_loss (store s r)"
    and "price \<ge> first (take_profits (store s r)) \<or>
         price \<ge> second (take_profits (store s r)) \<or>
         price \<ge> moonbag (take_profits (store s r))"
  shows "\<exists>s' res. update_positions s [(token, price)] = (s', [(token, StopLoss, res)]) \<and>
           success res \<and> positions s' token = None \<and>
           current_balance s' = current_balance s + amount (store s r) * price"
  using assms(1,2)
  by (simp add: update_position_def assign_def execute_sell[OF upper_SELL] success_def Let_def)

theorem stop_loss_precedes_take_profit_witness:
  "positions zero_entry_trader ''TOK'' = Some 0 \<and>
   0 \<le> stop_loss (store zero_entry_trader 0) \<and>
   0 \<ge> first (take_profits (store zero_entry_trader 0)) \<and>
   (\<exists>s' res. update_positions zero_entry_trader [(''TOK'', 0)] = (s', [(''TOK'', StopLoss, res)]) \<and>
           success res \<and> positions s' ''TOK'' = None \<and>
           current_balance s' = current_balance zero_entry_trader + amount (store zero_entry_trader 0) * 0)"
proof -
  have a: "positions zero_entry_trader ''TOK'' = Some 0"
    by (simp add: zero_entry_trader_def trader_eval)
  have b: "0 \<le> stop_loss (store zero_entry_trader 0)"
    by (simp add: zero_entry_trader_def trader_eval)
  have c: "0 \<ge> first (take_profits (store zero_entry_trader 0))"
    by (simp add: zero_entry_trader_def trader_eval)
  from c have c': "0 \<ge> first (take_profits (store zero_entry_trader 0)) \<or>
         0 \<ge> second (take_profits (store zero_entry_trader 0)) \<or>
         0 \<ge> moonbag (take_profits (store zero_entry_trader 0))" by simp
  show ?thesis
    using a b c stop_loss_precedes_take_profit [OF a b c'] by simp
qed


section \<open>What a take-profit target sells\<close>

text \<open>
  Claim C1. The first take-profit target computes 40% of the amount, asks
  \<^verbatim>\<open>execute_trade\<close> to SELL it, and then subtracts it from the position's amount.
  On a position of 10 bought at 1 and a price of 1.31, the call reports success for
  the amount 4, yet the balance is credited with 10 * 1.31 and not with 4 * 1.31, the
  token is deleted from the open positions, and the dictionary that
  \<^verbatim>\<open>update_positions\<close> still holds is left with the amount 6. The fraction sold and
  the fraction remaining are 1 and 0 in the account, 0.4 and 0.6 in the loop's own
  bookkeeping, so the two do not add up to the position.
\<close>

theorem first_target_sells_whole_position:
  "positions bought_trader ''TOK'' = Some 0 \<and>
   amount (store bought_trader 0) = 10 \<and>
   current_balance bought_trader = 490 \<and>
   snd (update_positions bought_trader [(''TOK'', 131 / 100)]) =
     [(''TOK'', TakeProfitFirst, Success (5031 / 10) ''SELL'' 4 (131 / 100))] \<and>
   current_balance (fst (update_positions bought_trader [(''TOK'', 131 / 100)])) =
     490 + 10 * (131 / 100) \<and>
   current_balance (fst (update_positions bought_trader [(''TOK'', 131 / 100)])) \<noteq>
     490 + 4 * (131 / 100) \<and>
   positions (fst (update_positions bought_trader [(''TOK'', 131 / 100)])) ''TOK'' = None \<and>
   amount (store (fst (update_positions bought_trader [(''TOK'', 131 / 100)])) 0) = 6"
  by (simp add: bought_trader_def trader_eval)


text \<open>
  At a price that also reaches the second target, the second SELL finds no position
  (the first one deleted it) and fails; the loop ignores the failure, books another
  40% of the remainder as sold and sets \<^verbatim>\<open>moonbag_reserved\<close> on the dictionary it
  holds.
\<close>

lemma second_target_finds_no_position:
  "snd (update_positions bought_trader [(''TOK'', 2)]) =
     [(''TOK'', TakeProfitFirst, Success 510 ''SELL'' 4 2),
      (''TOK'', TakeProfitSecond, Failure ''No open position for this token'')] \<and>
   current_balance (fst (update_positions bought_trader [(''TOK'', 2)])) = 490 + 10 * 2 \<and>
   positions (fst (update_positions bought_trader [(''TOK'', 2)])) ''TOK'' = None \<and>
   amount (store (fst (update_positions bought_trader [(''TOK'', 2)])) 0) = 36 / 10 \<and>
   moonbag_reserved (store (fst (update_positions bought_trader [(''TOK'', 2)])) 0)"
  by (simp add: bought_trader_def trader_eval)


section \<open>Partial failure of a polling round\<close>

lemma venue_prices_fold:
  "distinct (map fst ds) \<Longrightarrow>
   map_of (fold (\<lambda>(dex_name, d) entries.
             case get_price d base quote of
               Inl e \<Rightarrow> entries
             | Inr price \<Rightarrow>
                 if price > 0 then AList.update dex_name price entries else entries) ds acc) n =
   (case map_of ds n of
      None \<Rightarrow> map_of acc n
    | Some d \<Rightarrow> (case get_price d base quote of
                  Inl e \<Rightarrow> map_of acc n
                | Inr price \<Rightarrow> if price > 0 then Some price else map_of acc n))"
proof (induction ds arbitrary: acc)
  case Nil
  then show ?case by simp
next
  case (Cons a ds)
  obtain k d where a: "a = (k, d)" by (cases a)
  from Cons.prems have dist: "distinct (map fst ds)" and k: "k \<notin> fst ` set ds"
    by (auto simp: a)
  from k have none: "map_of ds k = None" by (simp add: map_of_eq_None_iff)
  show ?case
    by (auto simp: a Cons.IH[OF dist] none AList.update_conv' split: option.splits sum.splits)
qed

lemma venue_prices_lookup:
  assumes "distinct (map fst ds)" "(n, d) \<in> set ds"
  shows "map_of (venue_prices ds base quote) n =
     (case get_price d base quote of
        Inl e \<Rightarrow> None
      | Inr price \<Rightarrow> if price > 0 then Some price else None)"
proof -
  from assms have "map_of ds n = Some d" by simp
  then show ?thesis
    unfolding venue_prices_def by (simp add: venue_prices_fold[OF assms(1)] split: sum.splits)
qed

lemma all_prices_fold_other:
  "k \<notin> (\<lambda>(b, q). pair_key b q) ` set ps \<Longrightarrow>
   map_of (fold (\<lambda>(base, quote) prices.
             AList.update (pair_key base quote) (f base quote) prices) ps acc) k = map_of acc k"
  by (induction ps arbitrary: acc) (auto simp: AList.update_conv')

lemma all_prices_fold:
  "distinct (map (\<lambda>(b, q). pair_key b q) ps) \<Longrightarrow> (base, quote) \<in> set ps \<Longrightarrow>
   map_of (fold (\<lambda>(base, quote) prices.
             AList.update (pair_key base quote) (f base quote) prices) ps acc) (pair_key base quote)
   = Some (f base quote)"
proof (induction ps arbitrary: acc)
  case Nil
  then show ?case by simp
next
  case (Cons a ps)
  obtain b q where a: "a = (b, q)" by (cases a)
  show ?case
  proof (cases "(base, quote) = (b, q)")
    case True
    from Cons.prems(1) have "pair_key b q \<notin> (\<lambda>(b, q). pair_key b q) ` set ps"
      by (auto simp: a)
    with True show ?thesis
      by (simp add: a all_prices_fold_other AList.update_conv')
  next
    case False
    with Cons.prems have "(base, quote) \<in> set ps" "distinct (map (\<lambda>(b, q). pair_key b q) ps)"
      by (auto simp: a)
    then show ?thesis by (simp add: a Cons.IH)
  qed
qed

text \<open>
  Claim C8. With distinct venue names and distinct pair keys, every configured pair has
  an entry in the result of \<^verbatim>\<open>get_all_prices\<close>, and in it a venue has a quote exactly
  when its fetch returned a positive price, namely that price. A venue that raises or
  answers a price that is not positive is left out, whatever the other venues did, and
  the entries of the other venues do not depend on it. The function has no error
  result: every exception of a fetch is caught inside the loop.
\<close>

theorem one_bad_venue_drops_only_itself:
  assumes "distinct (map fst (dexes m))"
    and "distinct (map (\<lambda>(b, q). pair_key b q) (trading_pairs m))"
    and "(base, quote) \<in> set (trading_pairs m)"
    and "(dex_name, d) \<in> set (dexes m)"
  shows "\<exists>entries. map_of (get_all_prices m) (pair_key base quote) = Some entries \<and>
           map_of entries dex_name =
             (case get_price d base quote of
                Inl e \<Rightarrow> None
              | Inr price \<Rightarrow> if price > 0 then Some price else None)"
  unfolding get_all_prices_def
  using all_prices_fold[OF assms(2,3), of "venue_prices (dexes m)" "[]"]
    venue_prices_lookup[OF assms(1,4), of base quote]
  by simp

theorem one_bad_venue_drops_only_itself_witness:
  "distinct (map fst (dexes partial_manager)) \<and>
   distinct (map (\<lambda>(b, q). pair_key b q) (trading_pairs partial_manager)) \<and>
   (''SOL'', ''USDC'') \<in> set (trading_pairs partial_manager) \<and>
   (''Orca'', failing) \<in> set (dexes partial_manager) \<and>
   (\<exists>entries. map_of (get_all_prices partial_manager) ''SOL-USDC'' = Some entries \<and>
      map_of entries ''Orca'' = None) \<and>
   map_of (get_all_prices partial_manager) ''SOL-USDC'' =
     Some [(''Raydium'', 1), (''Saros'', 106 / 100)]"
proof -
  have a: "distinct (map fst (dexes partial_manager))"
    by (simp add: partial_manager_def)
  have b: "distinct (map (\<lambda>(b, q). pair_key b q) (trading_pairs partial_manager))"
    by (simp add: partial_manager_def configured_pairs_def pair_key_def)
  have c: "(''SOL'', ''USDC'') \<in> set (trading_pairs partial_manager)"
    by (simp add: partial_manager_def configured_pairs_def)
  have d: "(''Orca'', failing) \<in> set (dexes partial_manager)"
    by (simp add: partial_manager_def)
  have e: "map_of (get_all_prices partial_manager) ''SOL-USDC'' =
     Some [(''Raydium'', 1), (''Saros'', 106 / 100)]"
    by (simp add: partial_manager_def configured_pairs_def dex_eval)
  show ?thesis
    using a b c d e one_bad_venue_drops_only_itself [OF a b c d]
    by (simp add: pair_key_def failing_def)
qed


section \<open>The cheapest and the dearest venue\<close>

lemma min_from_split:
  assumes "pre = ys @ b # zs" "\<forall>y\<in>set ys. key b < key y" "\<forall>z\<in>set zs. key b \<le> key z"
  shows "\<exists>ys' zs'. pre @ xs = ys' @ min_from key b xs # zs' \<and>
           (\<forall>y\<in>set ys'. key (min_from key b xs) < key y) \<and>
           (\<forall>z\<in>set zs'. key (min_from key b xs) \<le> key z)"
  using assms
proof (induction xs arbitrary: pre b ys zs)
  case Nil
  then show ?case by auto
next
  case (Cons x xs)
  show ?case
  proof (cases "key x < key b")
    case True
    have "pre @ [x] = pre @ x # []" by simp
    moreover have "\<forall>y\<in>set pre. key x < key y"
      using Cons.prems True by auto
    ultimately have "\<exists>ys' zs'. (pre @ [x]) @ xs = ys' @ min_from key x xs # zs' \<and>
           (\<forall>y\<in>set ys'. key (min_from key x xs) < key y) \<and>
           (\<forall>z\<in>set zs'. key (min_from key x xs) \<le> key z)"
      by (intro Cons.IH[where ys = pre and zs = "[]"]) auto
    with True show ?thesis by simp
  next
    case False
    have "pre @ [x] = ys @ b # (zs @ [x])" using Cons.prems by simp
    moreover have "\<forall>z\<in>set (zs @ [x]). key b \<le> key z"
      using Cons.prems False by auto
    ultimately have "\<exists>ys' zs'. (pre @ [x]) @ xs = ys' @ min_from key b xs # zs' \<and>
           (\<forall>y\<in>set ys'. key (min_from key b xs) < key y) \<and>
           (\<forall>z\<in>set zs'. key (min_from key b xs) \<le> key z)"
      using Cons.prems(2) by (intro Cons.IH[where ys = ys and zs = "zs @ [x]"]) auto
    with False show ?thesis by simp
  qed
qed

lemma min_from_first:
  "\<exists>ys zs. b # xs = ys @ min_from key b xs # zs \<and>
           (\<forall>y\<in>set ys. key (min_from key b xs) < key y) \<and>
           (\<forall>z\<in>set zs. key (min_from key b xs) \<le> key z)"
  using min_from_split[of "[b]" "[]" b "[]" key xs] by simp

lemma max_from_split:
  assumes "pre = ys @ b # zs" "\<forall>y\<in>set ys. key y < key b" "\<forall>z\<in>set zs. key z \<le> key b"
  shows "\<exists>ys' zs'. pre @ xs = ys' @ max_from key b xs # zs' \<and>
           (\<forall>y\<in>set ys'. key y < key (max_from key b xs)) \<and>
           (\<forall>z\<in>set zs'. key z \<le> key (max_from key b xs))"
  using assms
proof (induction xs arbitrary: pre b ys zs)
  case Nil
  then show ?case by auto
next
  case (Cons x xs)
  show ?case
  proof (cases "key x > key b")
    case True
    have "pre @ [x] = pre @ x # []" by simp
    moreover have "\<forall>y\<in>set pre. key y < key x"
      using Cons.prems True by auto
    ultimately have "\<exists>ys' zs'. (pre @ [x]) @ xs = ys' @ max_from key x xs # zs' \<and>
           (\<forall>y\<in>set ys'. key y < key (max_from key x xs)) \<and>
           (\<forall>z\<in>set zs'. key z \<le> key (max_from key x xs))"
      by (intro Cons.IH[where ys = pre and zs = "[]"]) auto
    with True show ?thesis by simp
  next
    case False
    have "pre @ [x] = ys @ b # (zs @ [x])" using Cons.prems by simp
    moreover have "\<forall>z\<in>set (zs @ [x]). key z \<le> key b"
      using Cons.prems False by auto
    ultimately have "\<exists>ys' zs'. (pre @ [x]) @ xs = ys' @ max_from key b xs # zs' \<and>
           (\<forall>y\<in>set ys'. key y < key (max_from key b xs)) \<and>
           (\<forall>z\<in>set zs'. key z \<le> key (max_from key b xs))"
      using Cons.prems(2) by (intro Cons.IH[where ys = ys and zs = "zs @ [x]"]) auto
    with False show ?thesis by simp
  qed
qed

lemma max_from_first:
  "\<exists>ys zs. b # xs = ys @ max_from key b xs # zs \<and>
           (\<forall>y\<in>set ys. key y < key (max_from key b xs)) \<and>
           (\<forall>z\<in>set zs. key z \<le> key (max_from key b xs))"
  using max_from_split[of "[b]" "[]" b "[]" key xs] by simp

lemma min_from_mem: "min_from key b xs \<in> set (b # xs)"
  using min_from_first[of b xs key] by (metis in_set_conv_decomp)

lemma min_from_le: "x \<in> set (b # xs) \<Longrightarrow> key (min_from key b xs) \<le> key x"
proof -
  assume x: "x \<in> set (b # xs)"
  obtain ys zs where d: "b # xs = ys @ min_from key b xs # zs"
    and l: "\<forall>y\<in>set ys. key (min_from key b xs) < key y"
    and r: "\<forall>z\<in>set zs. key (min_from key b xs) \<le> key z"
    using min_from_first[of b xs key] by blast
  from x d have "x \<in> set ys \<or> x = min_from key b xs \<or> x \<in> set zs"
    by (metis Un_iff set_ConsD set_append)
  with l r show ?thesis by fastforce
qed

lemma max_from_mem: "max_from key b xs \<in> set (b # xs)"
  using max_from_first[of b xs key] by (metis in_set_conv_decomp)

lemma max_from_ge: "x \<in> set (b # xs) \<Longrightarrow> key x \<le> key (max_from key b xs)"
proof -
  assume x: "x \<in> set (b # xs)"
  obtain ys zs where d: "b # xs = ys @ max_from key b xs # zs"
    and l: "\<forall>y\<in>set ys. key y < key (max_from key b xs)"
    and r: "\<forall>z\<in>set zs. key z \<le> key (max_from key b xs)"
    using max_from_first[of b xs key] by blast
  from x d have "x \<in> set ys \<or> x = max_from key b xs \<or> x \<in> set zs"
    by (metis Un_iff set_ConsD set_append)
  with l r show ?thesis by fastforce
qed

lemma pair_opportunity_Some:
  assumes "pair_opportunity mp pn dp = Inr (Some opp)"
  obtains x rest where "dp = x # rest" "rest \<noteq> []"
    "snd (min_from snd x rest) \<noteq> 0"
    "opp = \<lparr>pair = pn,
            buy_dex = fst (min_from snd x rest),
            sell_dex = fst (max_from snd x rest),
            buy_price = snd (min_from snd x rest),
            sell_price = snd (max_from snd x rest),
            profit_percentage =
              (snd (max_from snd x rest) - snd (min_from snd x rest)) / snd (min_from snd x rest) * 100\<rparr>"
    "mp \<le> (snd (max_from snd x rest) - snd (min_from snd x rest)) / snd (min_from snd x rest) * 100"
proof (cases dp)
  case Nil
  with assms show ?thesis by (simp add: pair_opportunity_def)
next
  case (Cons x rest)
  show ?thesis
  proof (cases rest)
    case Nil
    with Cons assms show ?thesis by (simp add: pair_opportunity_def)
  next
    case (Cons y rest')
    with \<open>dp = x # rest\<close> assms that[of x rest] show ?thesis
      by (simp add: pair_opportunity_def Let_def split: if_splits)
  qed
qed

lemma pair_opportunity_bounds:
  assumes "pair_opportunity mp pn dp = Inr (Some opp)"
  shows "2 \<le> length dp \<and> pair opp = pn \<and>
         (buy_dex opp, buy_price opp) \<in> set dp \<and>
         (sell_dex opp, sell_price opp) \<in> set dp \<and>
         (\<forall>(v, p)\<in>set dp. buy_price opp \<le> p \<and> p \<le> sell_price opp) \<and>
         buy_price opp \<le> sell_price opp \<and> mp \<le> profit_percentage opp"
proof -
  from assms obtain x rest where dp: "dp = x # rest" and ne: "rest \<noteq> []"
    and opp: "opp = \<lparr>pair = pn,
            buy_dex = fst (min_from snd x rest),
            sell_dex = fst (max_from snd x rest),
            buy_price = snd (min_from snd x rest),
            sell_price = snd (max_from snd x rest),
            profit_percentage =
              (snd (max_from snd x rest) - snd (min_from snd x rest)) / snd (min_from snd x rest) * 100\<rparr>"
    and mp: "mp \<le> (snd (max_from snd x rest) - snd (min_from snd x rest)) / snd (min_from snd x rest) * 100"
    by (rule pair_opportunity_Some)
  have len: "2 \<le> length dp" using dp ne by (cases rest) auto
  have m1: "min_from snd x rest \<in> set dp" unfolding dp by (rule min_from_mem)
  have m2: "max_from snd x rest \<in> set dp" unfolding dp by (rule max_from_mem)
  have b: "\<forall>e\<in>set dp. snd (min_from snd x rest) \<le> snd e \<and> snd e \<le> snd (max_from snd x rest)"
    unfolding dp using min_from_le[of _ x rest snd] max_from_ge[of _ x rest snd] by blast
  from b m1 have le: "snd (min_from snd x rest) \<le> snd (max_from snd x rest)" by blast
  show ?thesis using len m1 m2 b le mp by (auto simp: opp)
qed

lemma scan_pairs_mem:
  assumes "scan_pairs mp prices = Inr opps" "opp \<in> set opps"
  shows "\<exists>pn dp. (pn, dp) \<in> set prices \<and> pair_opportunity mp pn dp = Inr (Some opp)"
  using assms
proof (induction prices arbitrary: opps)
  case Nil
  then show ?case by simp
next
  case (Cons a prices)
  obtain pn dp where a: "a = (pn, dp)" by (cases a)
  from Cons.prems(1) obtain found rest where
    f: "pair_opportunity mp pn dp = Inr found" and r: "scan_pairs mp prices = Inr rest"
    and o: "opps = (case found of None \<Rightarrow> rest | Some opp \<Rightarrow> opp # rest)"
    by (auto simp: a split: sum.splits)
  show ?case
  proof (cases "opp \<in> set rest")
    case True
    with Cons.IH[OF r] show ?thesis by auto
  next
    case False
    with o Cons.prems(2) have "found = Some opp" by (cases found) auto
    with f a show ?thesis by auto
  qed
qed


text \<open>
  Claim C3. Every opportunity that \<^verbatim>\<open>get_arbitrage_opportunities\<close> emits comes from a
  quote map of at least two venues; its buy venue and price are an entry of that map
  with the minimal price, its sell venue and price an entry with the maximal price,
  and so the buy price is at most the sell price.
\<close>

theorem lowest_buys_highest_sells:
  assumes "get_arbitrage_opportunities m min_profit_percentage = Inr opportunities"
    and "opp \<in> set opportunities"
  shows "\<exists>dex_prices. (pair opp, dex_prices) \<in> set (get_all_prices m) \<and>
           2 \<le> length dex_prices \<and>
           (buy_dex opp, buy_price opp) \<in> set dex_prices \<and>
           (sell_dex opp, sell_price opp) \<in> set dex_prices \<and>
           (\<forall>(v, p)\<in>set dex_prices. buy_price opp \<le> p \<and> p \<le> sell_price opp) \<and>
           buy_price opp \<le> sell_price opp"
proof -
  from assms obtain pn dp where mem: "(pn, dp) \<in> set (get_all_prices m)"
    and po: "pair_opportunity min_profit_percentage pn dp = Inr (Some opp)"
    unfolding get_arbitrage_opportunities_def by (blast dest: scan_pairs_mem)
  from pair_opportunity_bounds[OF po] mem show ?thesis by blast
qed

theorem lowest_buys_highest_sells_witness:
  "get_arbitrage_opportunities scenario_a 3 =
     Inr [\<lparr>pair = ''SOL-USDC'', buy_dex = ''VenueX'', sell_dex = ''VenueY'',
           buy_price = 1, sell_price = 106 / 100, profit_percentage = 6\<rparr>] \<and>
   (\<exists>dex_prices. (''SOL-USDC'', dex_prices) \<in> set (get_all_prices scenario_a) \<and>
      2 \<le> length dex_prices \<and>
      (''VenueX'', 1) \<in> set dex_prices \<and> (''VenueY'', 106 / 100) \<in> set dex_prices \<and>
      (\<forall>(v, p)\<in>set dex_prices. 1 \<le> p \<and> p \<le> 106 / 100))"
  using lowest_buys_highest_sells [of scenario_a 3
      "[\<lparr>pair = ''SOL-USDC'', buy_dex = ''VenueX'', sell_dex = ''VenueY'',
           buy_price = 1, sell_price = 106 / 100, profit_percentage = 6\<rparr>]"
      "\<lparr>pair = ''SOL-USDC'', buy_dex = ''VenueX'', sell_dex = ''VenueY'',
           buy_price = 1, sell_price = 106 / 100, profit_percentage = 6\<rparr>"]
  by (simp add: scenario_a_def dex_eval)

text \<open>
  The same holds for the opportunity that \<^verbatim>\<open>ArbitrageBot.find_arbitrage_opportunity\<close>
  returns.
\<close>

lemma find_in_pairs_bounds:
  assumes "find_in_pairs b ps = Some opp"
  shows "(bot_buy_dex opp, bot_buy_price opp) \<in> set (bot_prices b (base_token opp, quote_token opp)) \<and>
         (bot_sell_dex opp, bot_sell_price opp) \<in> set (bot_prices b (base_token opp, quote_token opp)) \<and>
         (\<forall>(v, p)\<in>set (bot_prices b (base_token opp, quote_token opp)).
            bot_buy_price opp \<le> p \<and> p \<le> bot_sell_price opp) \<and>
         bot_buy_price opp \<le> bot_sell_price opp"
  using assms
proof (induction ps)
  case Nil
  then show ?case by simp
next
  case (Cons a ps)
  obtain base quote where a: "a = (base, quote)" by (cases a)
  show ?case
  proof (cases "find_in_pairs b (a # ps) = find_in_pairs b ps")
    case True
    with Cons show ?thesis by simp
  next
    case False
    then obtain x rest where bp: "bot_prices b (base, quote) = x # rest"
      and opp: "opp = \<lparr>base_token = base, quote_token = quote,
                     bot_buy_dex = fst (min_from snd x rest), bot_sell_dex = fst (max_from snd x rest),
                     bot_buy_price = snd (min_from snd x rest), bot_sell_price = snd (max_from snd x rest),
                     potential_profit_usd = (snd (max_from snd x rest) - snd (min_from snd x rest)) * 1\<rparr>"
      using Cons.prems
      by (auto simp: a Let_def split: list.splits if_splits)
    have m1: "min_from snd x rest \<in> set (x # rest)" by (rule min_from_mem)
    have m2: "max_from snd x rest \<in> set (x # rest)" by (rule max_from_mem)
    have bd: "\<forall>e\<in>set (x # rest). snd (min_from snd x rest) \<le> snd e \<and> snd e \<le> snd (max_from snd x rest)"
      using min_from_le[of _ x rest snd] max_from_ge[of _ x rest snd] by blast
    from bd m1 have "snd (min_from snd x rest) \<le> snd (max_from snd x rest)" by blast
    with m1 m2 bd show ?thesis
      by (auto simp: opp bp)
  qed
qed


section \<open>What an opportunity depends on\<close>

text \<open>
  Claim C5 as stated fails. Take Scenario A of the specification on two venues whose
  liquidity is 0: \<^verbatim>\<open>get_liquidity_info\<close> has no entry for either venue, and the
  opportunity is emitted all the same.
\<close>

theorem illiquid_spread_is_emitted:
  "get_liquidity_info scenario_a (''SOL'', ''USDC'') = [] \<and>
   get_arbitrage_opportunities scenario_a 3 =
     Inr [\<lparr>pair = ''SOL-USDC'', buy_dex = ''VenueX'', sell_dex = ''VenueY'',
           buy_price = 1, sell_price = 106 / 100, profit_percentage = 6\<rparr>]"
  by (simp add: scenario_a_def dex_eval)

lemma fold_prices_ignore_liquidity:
  "fold (\<lambda>(dex_name, d) entries.
             case get_price d base quote of
               Inl e \<Rightarrow> entries
             | Inr price \<Rightarrow>
                 if price > 0 then AList.update dex_name price entries else entries)
        (map (\<lambda>(n, d). (n, d\<lparr>get_liquidity := liq n\<rparr>)) ds) acc =
   fold (\<lambda>(dex_name, d) entries.
             case get_price d base quote of
               Inl e \<Rightarrow> entries
             | Inr price \<Rightarrow>
                 if price > 0 then AList.update dex_name price entries else entries)
        ds acc"
  by (induction ds arbitrary: acc) (auto split: sum.splits)

lemma venue_prices_ignore_liquidity:
  "venue_prices (map (\<lambda>(n, d). (n, d\<lparr>get_liquidity := liq n\<rparr>)) ds) base quote =
   venue_prices ds base quote"
  unfolding venue_prices_def by (rule fold_prices_ignore_liquidity)

text \<open>
  Claim C5, amended. An opportunity is emitted only if its \<^verbatim>\<open>profit_percentage\<close> is
  at least \<^verbatim>\<open>min_profit_percentage\<close>. Liquidity is not consulted: replacing the
  liquidity answers of all venues by any others leaves the emitted opportunities the
  same.
\<close>

theorem spread_is_the_only_condition:
  assumes "get_arbitrage_opportunities m min_profit_percentage = Inr opportunities"
    and "opp \<in> set opportunities"
  shows "profit_percentage opp \<ge> min_profit_percentage \<and>
         get_arbitrage_opportunities
           (m\<lparr>dexes := map (\<lambda>(n, d). (n, d\<lparr>get_liquidity := liq n\<rparr>)) (dexes m)\<rparr>)
           min_profit_percentage = Inr opportunities"
proof -
  from assms obtain pn dp where
    po: "pair_opportunity min_profit_percentage pn dp = Inr (Some opp)"
    unfolding get_arbitrage_opportunities_def by (blast dest: scan_pairs_mem)
  have "get_all_prices (m\<lparr>dexes := map (\<lambda>(n, d). (n, d\<lparr>get_liquidity := liq n\<rparr>)) (dexes m)\<rparr>)
        = get_all_prices m"
    unfolding get_all_prices_def by (simp add: venue_prices_ignore_liquidity)
  with assms(1) pair_opportunity_bounds[OF po] show ?thesis
    by (simp add: get_arbitrage_opportunities_def)
qed

theorem spread_is_the_only_condition_witness:
  "get_arbitrage_opportunities scenario_a 3 =
     Inr [\<lparr>pair = ''SOL-USDC'', buy_dex = ''VenueX'', sell_dex = ''VenueY'',
           buy_price = 1, sell_price = 106 / 100, profit_percentage = 6\<rparr>] \<and>
   (6::rat) \<ge> 3 \<and>
   get_arbitrage_opportunities
     (scenario_a\<lparr>dexes := map (\<lambda>(n, d). (n, d\<lparr>get_liquidity := (\<lambda>_ _. Inr 1000000)\<rparr>))
        (dexes scenario_a)\<rparr>) 3 =
     Inr [\<lparr>pair = ''SOL-USDC'', buy_dex = ''VenueX'', sell_dex = ''VenueY'',
           buy_price = 1, sell_price = 106 / 100, profit_percentage = 6\<rparr>]"
  using spread_is_the_only_condition [of scenario_a 3
      "[\<lparr>pair = ''SOL-USDC'', buy_dex = ''VenueX'', sell_dex = ''VenueY'',
           buy_price = 1, sell_price = 106 / 100, profit_percentage = 6\<rparr>]"
      "\<lparr>pair = ''SOL-USDC'', buy_dex = ''VenueX'', sell_dex = ''VenueY'',
           buy_price = 1, sell_price = 106 / 100, profit_percentage = 6\<rparr>"
      "\<lambda>_ _ _. Inr 1000000"]
  by (simp add: scenario_a_def dex_eval)


section \<open>Ties between venues\<close>

text \<open>
  Claim C7 as stated fails. Raydium and Orca quote the same minimal price and Orca has
  the higher liquidity; Saros and Marinade quote the same maximal price with equal
  liquidity, and Marinade is the lexically smaller name. The detector buys on Raydium
  and sells on Saros, the venues that come first in \<^verbatim>\<open>self.dexes\<close>.
\<close>

theorem higher_liquidity_does_not_break_ties:
  "get_all_prices tied_manager =
     [(''mSOL-USDC'', [(''Raydium'', 1), (''Orca'', 1),
                       (''Saros'', 106 / 100), (''Marinade'', 106 / 100)])] \<and>
   get_liquidity_info tied_manager (''mSOL'', ''USDC'') =
     [(''Raydium'', 100), (''Orca'', 1000), (''Saros'', 500), (''Marinade'', 500)] \<and>
   get_arbitrage_opportunities tied_manager 1 =
     Inr [\<lparr>pair = ''mSOL-USDC'', buy_dex = ''Raydium'', sell_dex = ''Saros'',
           buy_price = 1, sell_price = 106 / 100, profit_percentage = 6\<rparr>]"
  by (simp add: tied_manager_def dex_eval)

lemma pair_opportunity_first:
  assumes "pair_opportunity mp pn dp = Inr (Some opp)"
  shows "(\<exists>ys zs. dp = ys @ (buy_dex opp, buy_price opp) # zs \<and>
            (\<forall>(v, p)\<in>set ys. buy_price opp < p) \<and> (\<forall>(v, p)\<in>set zs. buy_price opp \<le> p)) \<and>
         (\<exists>ys zs. dp = ys @ (sell_dex opp, sell_price opp) # zs \<and>
            (\<forall>(v, p)\<in>set ys. p < sell_price opp) \<and> (\<forall>(v, p)\<in>set zs. p \<le> sell_price opp))"
proof -
  from assms obtain x rest where dp: "dp = x # rest"
    and opp: "opp = \<lparr>pair = pn,
            buy_dex = fst (min_from snd x rest),
            sell_dex = fst (max_from snd x rest),
            buy_price = snd (min_from snd x rest),
            sell_price = snd (max_from snd x rest),
            profit_percentage =
              (snd (max_from snd x rest) - snd (min_from snd x rest)) / snd (min_from snd x rest) * 100\<rparr>"
    by (rule pair_opportunity_Some)
  have a: "\<exists>ys zs. dp = ys @ (buy_dex opp, buy_price opp) # zs \<and>
            (\<forall>(v, p)\<in>set ys. buy_price opp < p) \<and> (\<forall>(v, p)\<in>set zs. buy_price opp \<le> p)"
    using min_from_first[of x rest snd] by (auto simp: opp dp split_beta)
  have b: "\<exists>ys zs. dp = ys @ (sell_dex opp, sell_price opp) # zs \<and>
            (\<forall>(v, p)\<in>set ys. p < sell_price opp) \<and> (\<forall>(v, p)\<in>set zs. p \<le> sell_price opp)"
    using max_from_first[of x rest snd] by (auto simp: opp dp split_beta)
  from a b show ?thesis by simp
qed

text \<open>
  Claim C7, amended. Among venues with the same minimal (or maximal) price the detector
  selects the one that comes first in the quote map, whose order is that of
  \<^verbatim>\<open>self.dexes\<close>: every entry before the buy venue is strictly dearer, every entry
  before the sell venue strictly cheaper. Neither liquidity nor the venue name is
  consulted. The emitted list is \<open>scan_pairs\<close> applied to the threshold and the quote
  maps, a function of the two, so equal inputs give equal outputs.
\<close>

theorem ties_go_to_the_first_venue:
  assumes "get_arbitrage_opportunities m min_profit_percentage = Inr opportunities"
    and "opp \<in> set opportunities"
  shows "\<exists>dex_prices. (pair opp, dex_prices) \<in> set (get_all_prices m) \<and>
         (\<exists>ys zs. dex_prices = ys @ (buy_dex opp, buy_price opp) # zs \<and>
            (\<forall>(v, p)\<in>set ys. buy_price opp < p) \<and> (\<forall>(v, p)\<in>set zs. buy_price opp \<le> p)) \<and>
         (\<exists>ys zs. dex_prices = ys @ (sell_dex opp, sell_price opp) # zs \<and>
            (\<forall>(v, p)\<in>set ys. p < sell_price opp) \<and> (\<forall>(v, p)\<in>set zs. p \<le> sell_price opp))"
proof -
  from assms obtain pn dp where mem: "(pn, dp) \<in> set (get_all_prices m)"
    and po: "pair_opportunity min_profit_percentage pn dp = Inr (Some opp)"
    unfolding get_arbitrage_opportunities_def by (blast dest: scan_pairs_mem)
  from pair_opportunity_bounds[OF po] have "pair opp = pn" by simp
  with pair_opportunity_first[OF po] mem show ?thesis by blast
qed

theorem ties_go_to_the_first_venue_witness:
  "get_arbitrage_opportunities tied_manager 1 =
     Inr [\<lparr>pair = ''mSOL-USDC'', buy_dex = ''Raydium'', sell_dex = ''Saros'',
           buy_price = 1, sell_price = 106 / 100, profit_percentage = 6\<rparr>] \<and>
   (\<exists>dex_prices. (''mSOL-USDC'', dex_prices) \<in> set (get_all_prices tied_manager) \<and>
      (\<exists>ys zs. dex_prices = ys @ (''Raydium'', 1) # zs \<and>
         (\<forall>(v, p)\<in>set ys. 1 < p) \<and> (\<forall>(v, p)\<in>set zs. 1 \<le> p)) \<and>
      (\<exists>ys zs. dex_prices = ys @ (''Saros'', 106 / 100) # zs \<and>
         (\<forall>(v, p)\<in>set ys. p < 106 / 100) \<and> (\<forall>(v, p)\<in>set zs. p \<le> 106 / 100)))"
  using ties_go_to_the_first_venue [of tied_manager 1
      "[\<lparr>pair = ''mSOL-USDC'', buy_dex = ''Raydium'', sell_dex = ''Saros'',
           buy_price = 1, sell_price = 106 / 100, profit_percentage = 6\<rparr>]"
      "\<lparr>pair = ''mSOL-USDC'', buy_dex = ''Raydium'', sell_dex = ''Saros'',
           buy_price = 1, sell_price = 106 / 100, profit_percentage = 6\<rparr>"]
  by (simp add: tied_manager_def dex_eval)


section \<open>Bounds of the weighted risk score\<close>

text \<open>
  Claim C2 as stated fails: weights that sum to 1 may be negative. With the weights
  2, -1, 0, 0, 0, a volatility score of 100 and all other scores 0, the total is 200.
\<close>

theorem total_risk_unbounded_counterexample:
  "volatility skewed_weights + liquidity skewed_weights + spread skewed_weights +
     volume skewed_weights + smart_contract skewed_weights = 1 \<and>
   volatility_risk volatile_only = 100 \<and> liquidity_risk volatile_only = 0 \<and>
   spread_risk volatile_only = 0 \<and> volume_risk volatile_only = 0 \<and>
   smart_contract_risk volatile_only = 0 \<and>
   total_risk skewed_weights volatile_only = 200 \<and>
   \<not> total_risk skewed_weights volatile_only \<le> 100"
  by (simp add: skewed_weights_def volatile_only_def total_risk_def)

text \<open>
  Claim C2, amended. For weights that are non-negative and sum to 1, and component
  scores in [0, 100], \<^verbatim>\<open>total_risk\<close> lies in [0, 100].
\<close>

theorem total_risk_bounded:
  assumes "volatility w + liquidity w + spread w + volume w + smart_contract w = 1"
    and "0 \<le> volatility w" "0 \<le> liquidity w" "0 \<le> spread w" "0 \<le> volume w"
        "0 \<le> smart_contract w"
    and "0 \<le> volatility_risk c \<and> volatility_risk c \<le> 100"
    and "0 \<le> liquidity_risk c \<and> liquidity_risk c \<le> 100"
    and "0 \<le> spread_risk c \<and> spread_risk c \<le> 100"
    and "0 \<le> volume_risk c \<and> volume_risk c \<le> 100"
    and "0 \<le> smart_contract_risk c \<and> smart_contract_risk c \<le> 100"
  shows "0 \<le> total_risk w c \<and> total_risk w c \<le> 100"
proof -
  have up: "\<And>x y::rat. 0 \<le> y \<Longrightarrow> x \<le> 100 \<Longrightarrow> x * y \<le> 100 * y"
    by (rule mult_right_mono)
  have "total_risk w c \<le> 100 * volatility w + 100 * liquidity w + 100 * spread w +
          100 * volume w + 100 * smart_contract w"
    unfolding total_risk_def
    using assms by (intro add_mono up) auto
  also have "\<dots> = 100 * (volatility w + liquidity w + spread w + volume w + smart_contract w)"
    by (simp add: algebra_simps)
  also have "\<dots> = 100" using assms(1) by simp
  finally have hi: "total_risk w c \<le> 100" .
  have lo: "0 \<le> total_risk w c"
    unfolding total_risk_def using assms by (intro add_nonneg_nonneg mult_nonneg_nonneg) auto
  from lo hi show ?thesis by simp
qed

theorem total_risk_bounded_witness:
  "volatility default_weights + liquidity default_weights + spread default_weights +
     volume default_weights + smart_contract default_weights = 1 \<and>
   total_risk default_weights scenario_d = 177 / 2 \<and>
   0 \<le> total_risk default_weights scenario_d \<and> total_risk default_weights scenario_d \<le> 100"
  using total_risk_bounded [of default_weights scenario_d]
  by (simp add: default_weights_def scenario_d_def total_risk_def)


section \<open>The trailing stop\<close>

text \<open>
  Claim C6 as stated fails. Take the configured exit thresholds, the values that
  \<^verbatim>\<open>_get_current_price\<close> and \<^verbatim>\<open>_get_position_data\<close> return (price 1.0, trailing
  high 1.2) and an entry at 1.0: no profit has been taken (the price change is 0), and
  the trailing stop alone makes \<^verbatim>\<open>should_exit\<close> true.
\<close>

theorem trailing_stop_alone_exits_counterexample:
  "analyze_exit_opportunity default_exit_config 1 returned_position_data 1 =
     \<lparr>should_exit = True, reasons = [TrailingStopHit (50 / 3)], seen_price = 1, price_change = 0\<rparr>"
  by (simp add: analyze_exit_opportunity_def default_exit_config_def returned_position_data_def Let_def)

text \<open>
  Claim C6, amended. Whenever the retracement
  \<^verbatim>\<open>(trailing_high - current_price) / trailing_high\<close> is at least
  \<^verbatim>\<open>trailing_stop\<close>, \<^verbatim>\<open>analyze_exit_opportunity\<close> answers \<^verbatim>\<open>should_exit: True\<close>,
  whatever the price change since entry: the function keeps no account of take-profit
  targets reached before. When neither division raises, the trailing stop is among the
  reasons.
\<close>

theorem trailing_stop_always_exits:
  assumes "(trailing_high pdata - price) / trailing_high pdata \<ge> cfg_trailing_stop cfg"
  shows "should_exit (analyze_exit_opportunity cfg price pdata entry) \<and>
         (entry \<noteq> 0 \<and> trailing_high pdata \<noteq> 0 \<longrightarrow>
            TrailingStopHit ((trailing_high pdata - price) / trailing_high pdata * 100)
              \<in> set (reasons (analyze_exit_opportunity cfg price pdata entry)))"
  using assms by (simp add: analyze_exit_opportunity_def exit_on_error_def Let_def)

theorem trailing_stop_always_exits_witness:
  "(trailing_high returned_position_data - 1) / trailing_high returned_position_data
      \<ge> cfg_trailing_stop default_exit_config \<and>
   (1::rat) \<noteq> 0 \<and> trailing_high returned_position_data \<noteq> 0 \<and>
   should_exit (analyze_exit_opportunity default_exit_config 1 returned_position_data 1) \<and>
   TrailingStopHit ((trailing_high returned_position_data - 1) / trailing_high returned_position_data * 100)
     \<in> set (reasons (analyze_exit_opportunity default_exit_config 1 returned_position_data 1))"
  using trailing_stop_always_exits [of default_exit_config returned_position_data 1 1]
  by (simp add: default_exit_config_def returned_position_data_def)

end
